theory Spec2Isabelle
  imports Main
begin

section \<open>Strings\<close>

text \<open>
  Python strings are modelled as HOL strings. The text handled here (issue titles and
  bodies, generated analyses, branch names) is taken to be ASCII: \<open>py_lower\<close>,
  \<open>isalnum\<close>, \<open>is_word\<close> and \<open>isspace\<close> are Python's \<open>str.lower\<close>,
  \<open>str.isalnum\<close>, the regular-expression class \<open>\\w\<close> and \<open>str.isspace\<close> on the
  ASCII range. The markers and emoji of the source's literals are written as their UTF-8
  bytes.
\<close>

definition is_upper :: "char \<Rightarrow> bool" where
  "is_upper c = (65 \<le> (of_char c :: nat) \<and> (of_char c :: nat) \<le> 90)"

definition is_lower :: "char \<Rightarrow> bool" where
  "is_lower c = (97 \<le> (of_char c :: nat) \<and> (of_char c :: nat) \<le> 122)"

definition is_digit :: "char \<Rightarrow> bool" where
  "is_digit c = (48 \<le> (of_char c :: nat) \<and> (of_char c :: nat) \<le> 57)"

definition isalnum :: "char \<Rightarrow> bool" where
  "isalnum c = (is_upper c \<or> is_lower c \<or> is_digit c)"

definition is_word :: "char \<Rightarrow> bool" where
  "is_word c = (isalnum c \<or> c = CHR ''_'')"

definition isspace :: "char \<Rightarrow> bool" where
  "isspace c = ((9 \<le> (of_char c :: nat) \<and> (of_char c :: nat) \<le> 13)
     \<or> (28 \<le> (of_char c :: nat) \<and> (of_char c :: nat) \<le> 32))"

definition lower_char :: "char \<Rightarrow> char" where
  "lower_char c = (if is_upper c then char_of ((of_char c :: nat) + 32) else c)"

definition py_lower :: "string \<Rightarrow> string" where
  "py_lower s = map lower_char s"

text \<open>\<open>s.replace(a, b)\<close> for single characters \<open>a\<close> and \<open>b\<close>.\<close>

definition replace_char :: "char \<Rightarrow> char \<Rightarrow> string \<Rightarrow> string" where
  "replace_char a b s = map (\<lambda>c. if c = a then b else c) s"

text \<open>\<open>s.strip()\<close>: leading and trailing whitespace removed.\<close>

definition strip :: "string \<Rightarrow> string" where
  "strip s = rev (dropWhile isspace (rev (dropWhile isspace s)))"

text \<open>\<open>k in s\<close> on strings: \<open>k\<close> occurs in \<open>s\<close> as a contiguous substring.\<close>

fun starts_with :: "string \<Rightarrow> string \<Rightarrow> bool" where
  "starts_with [] s = True"
| "starts_with (k # ks) [] = False"
| "starts_with (k # ks) (c # cs) = (k = c \<and> starts_with ks cs)"

fun contains :: "string \<Rightarrow> string \<Rightarrow> bool" where
  "contains k [] = (k = [])"
| "contains k (c # cs) = (starts_with k (c # cs) \<or> contains k cs)"

text \<open>\<open>str(n)\<close> for an integer: its decimal digits, with a minus sign when negative.\<close>

definition digit_char :: "nat \<Rightarrow> char" where
  "digit_char d = char_of (48 + d)"

fun digits_of :: "nat \<Rightarrow> string" where
  "digits_of n = (if n < 10 then [digit_char n] else digits_of (n div 10) @ [digit_char (n mod 10)])"

declare digits_of.simps [simp del]

definition str_int :: "int \<Rightarrow> string" where
  "str_int i = (if i < 0 then CHR ''-'' # digits_of (nat (- i)) else digits_of (nat i))"

section \<open>Issues and the classifier\<close>

text \<open>The fields of \<open>GitHubIssue\<close> (github_mcp_client.py).\<close>

record issue =
  number :: int
  title :: string
  body :: string
  state :: string
  labels :: "(string \<times> string) list list"
  created_at :: string
  updated_at :: string
  html_url :: string

definition code_keywords :: "string list" where
  "code_keywords = [''implement'', ''create'', ''add'', ''fix'', ''update'', ''modify'', ''change'',
     ''function'', ''class'', ''method'', ''api'', ''endpoint'', ''file'', ''code'',
     ''script'', ''module'', ''library'', ''package'', ''component'']"

definition invalid_keywords :: "string list" where
  "invalid_keywords = [''invalid'', ''unclear'', ''not clear'', ''confusing'', ''wrong'', ''error'',
     ''duplicate'', ''spam'', ''test'', ''example'', ''sample'']"

definition completed_keywords :: "string list" where
  "completed_keywords = [''done'', ''completed'', ''finished'', ''resolved'', ''fixed'', ''closed'',
     ''implemented'', ''added'', ''created'']"

text \<open>\<open>f"{task.title} {task.body}".lower()\<close>\<close>

definition task_text :: "issue \<Rightarrow> string" where
  "task_text task = py_lower (title task @ '' '' @ body task)"

definition requires_code_changes :: "issue \<Rightarrow> bool" where
  "requires_code_changes task = list_ex (\<lambda>keyword. contains keyword (task_text task)) code_keywords"

definition is_invalid_issue :: "issue \<Rightarrow> bool" where
  "is_invalid_issue task = list_ex (\<lambda>keyword. contains keyword (task_text task)) invalid_keywords"

definition is_completed_issue :: "issue \<Rightarrow> bool" where
  "is_completed_issue task = list_ex (\<lambda>keyword. contains keyword (task_text task)) completed_keywords"

section \<open>The code block extractor\<close>

record code_block =
  language :: string
  code :: string

definition fence :: string where
  "fence = [CHR 0x60, CHR 0x60, CHR 0x60]"

definition newline :: string where
  "newline = [CHR 0x0A]"

text \<open>
  The lazy group \<open>(.*?)\<close> followed by the closing fence, under \<open>re.DOTALL\<close>: the text up
  to the first fence, and what follows that fence; no match when there is no fence.
\<close>

fun find_fence :: "string \<Rightarrow> (string \<times> string) option" where
  "find_fence [] = None"
| "find_fence (c # cs) =
     (if starts_with fence (c # cs) then Some ([], drop 3 (c # cs))
      else (case find_fence cs of None \<Rightarrow> None | Some (b, r) \<Rightarrow> Some (c # b, r)))"

text \<open>
  One attempt to match the pattern \<^verbatim>\<open>```(\w+)?\n(.*?)```\<close> at the start of \<open>s\<close>: the two
  groups and the text after the match. The greedy group \<open>(\w+)?\<close> takes the longest run of
  word characters; giving characters back never helps, as the next character must be a
  newline, which is no word character. A group that took part in no match is the empty
  string in the result of \<open>re.findall\<close>.
\<close>

definition match_at :: "string \<Rightarrow> (string \<times> string \<times> string) option" where
  "match_at s =
     (if starts_with fence s then
        (let r = drop 3 s; tag = takeWhile is_word r; r2 = dropWhile is_word r in
         if starts_with newline r2 then
           (case find_fence (drop 1 r2) of
              None \<Rightarrow> None
            | Some (content, rest) \<Rightarrow> Some (tag, content, rest))
         else None)
      else None)"

text \<open>
  \<open>re.findall\<close>: the matches from left to right, not overlapping; after a match the scan
  goes on behind it, after a failed attempt one character further.
\<close>

function findall :: "string \<Rightarrow> (string \<times> string) list" where
  "findall [] = []"
| "findall (c # cs) =
     (case match_at (c # cs) of
        Some (tag, content, rest) \<Rightarrow> (tag, content) # findall rest
      | None \<Rightarrow> findall cs)"
  by pat_completeness auto
termination
proof (relation "measure length")
  show "wf (measure length)"
    by simp
next
  fix c cs
  show "(cs, c # cs) \<in> measure length"
    by simp
next
  fix c cs m tag rest2 content rest
  assume m: "match_at (c # cs) = Some m" "(tag, rest2) = m" "(content, rest) = rest2"
  have shorter: "length r < length s" if "find_fence s = Some (b, r)" for s b r
    using that
  proof (induction s arbitrary: b r)
    case Nil
    then show ?case by simp
  next
    case (Cons x xs)
    then show ?case
      by (auto split: if_splits option.splits)
  qed
  from m have "find_fence (drop 1 (dropWhile is_word (drop 3 (c # cs)))) = Some (content, rest)"
    by (auto simp: match_at_def Let_def split: if_splits option.splits)
  then have "length rest < length (drop 1 (dropWhile is_word (drop 3 (c # cs))))"
    by (rule shorter)
  also have "\<dots> \<le> length (dropWhile is_word (drop 3 (c # cs)))"
    by simp
  also have "\<dots> \<le> length (drop 3 (c # cs))"
    by (rule length_dropWhile_le)
  also have "\<dots> \<le> length (c # cs)"
    by simp
  finally show "(rest, c # cs) \<in> measure length"
    by simp
qed

definition extract_code_blocks :: "string \<Rightarrow> code_block list" where
  "extract_code_blocks text =
     map (\<lambda>(tag, content). \<lparr>language = (if tag \<noteq> [] then tag else ''text''), code = strip content\<rparr>)
       (findall text)"

section \<open>The gateway client as seen by the executor\<close>

text \<open>
  The executor talks to GitHub only through the methods of \<open>GitHubMCPClient\<close>. Each
  method is a function of the state of the outside world \<open>'w\<close> that returns its result
  and the new state of the world; no method raises (each body is wrapped in
  \<open>try\<close>/\<open>except Exception\<close>, see the client below). Results have the types the client
  declares: \<open>bool\<close>, and \<open>Optional[Dict[str, Any]]\<close> for a pull request, a dictionary
  whose values are integers or strings.
\<close>

datatype pr_value = PInt int | PStr string

type_synonym pull_request = "(string \<times> pr_value) list"

record 'w mcp_client =
  close_issue :: "string \<Rightarrow> int \<Rightarrow> string option \<Rightarrow> 'w \<Rightarrow> bool \<times> 'w"
  add_issue_comment :: "string \<Rightarrow> int \<Rightarrow> string \<Rightarrow> 'w \<Rightarrow> bool \<times> 'w"
  create_branch :: "string \<Rightarrow> string \<Rightarrow> string \<Rightarrow> 'w \<Rightarrow> bool \<times> 'w"
  create_file :: "string \<Rightarrow> string \<Rightarrow> string \<Rightarrow> string \<Rightarrow> string \<Rightarrow> 'w \<Rightarrow> bool \<times> 'w"
  create_pull_request ::
    "string \<Rightarrow> string \<Rightarrow> string \<Rightarrow> string \<Rightarrow> string \<Rightarrow> 'w \<Rightarrow> pull_request option \<times> 'w"

text \<open>A call made to the client, with its arguments in the order of the method and its result.\<close>

datatype event =
    CloseIssue string int "string option" bool
  | AddIssueComment string int string bool
  | CreateBranch string string string bool
  | CreateFile string string string string string bool
  | CreatePullRequest string string string string string "pull_request option"

fun is_close_issue :: "event \<Rightarrow> bool" where
  "is_close_issue (CloseIssue r n c ok) = True"
| "is_close_issue e = False"

fun is_add_comment :: "event \<Rightarrow> bool" where
  "is_add_comment (AddIssueComment r n c ok) = True"
| "is_add_comment e = False"

fun is_create_branch :: "event \<Rightarrow> bool" where
  "is_create_branch (CreateBranch r b m ok) = True"
| "is_create_branch e = False"

fun is_create_file :: "event \<Rightarrow> bool" where
  "is_create_file (CreateFile r p c b m ok) = True"
| "is_create_file e = False"

fun is_create_pr :: "event \<Rightarrow> bool" where
  "is_create_pr (CreatePullRequest r t b h m res) = True"
| "is_create_pr e = False"

text \<open>A file-creation call that returned success.\<close>

fun is_file_created :: "event \<Rightarrow> bool" where
  "is_file_created (CreateFile r p c b m ok) = ok"
| "is_file_created e = False"

section \<open>The action executor\<close>

definition check_mark :: string where
  "check_mark = [CHR 0xE2, CHR 0x9C, CHR 0x85]"

definition cross_mark :: string where
  "cross_mark = [CHR 0xE2, CHR 0x9D, CHR 0x8C]"

definition robot :: string where
  "robot = [CHR 0xF0, CHR 0x9F, CHR 0xA4, CHR 0x96]"

definition make_branch_name :: "issue \<Rightarrow> string" where
  "make_branch_name task =
     filter (\<lambda>c. isalnum c \<or> c = CHR ''-'')
       (''ai-task-'' @ str_int (number task) @ ''-''
          @ take 30 (replace_char (CHR '' '') (CHR ''-'') (py_lower (title task))))"

definition make_pr_title :: "issue \<Rightarrow> string" where
  "make_pr_title task = robot @ '' AI Agent: Implement '' @ title task"

definition make_pr_body :: "issue \<Rightarrow> code_block list \<Rightarrow> string" where
  "make_pr_body task code_blocks =
     ''## AI Agent Implementation'' @ newline @ newline
     @ ''This pull request implements the requirements from Issue #'' @ str_int (number task)
     @ '': '' @ title task @ newline @ newline
     @ ''### Changes Made:'' @ newline
     @ body task @ newline @ newline
     @ ''### Implementation:'' @ newline
     @ ''The AI agent has analyzed the requirements and provided the following implementation:''
     @ newline @ newline
     @ fence @ ''python'' @ newline
     @ (case code_blocks of b # bs \<Rightarrow> code b | [] \<Rightarrow> ''Implementation details in analysis'') @ newline
     @ fence @ newline @ newline
     @ ''### Files Created/Modified:'' @ newline
     @ ''- Generated implementation files saved to '' @ [CHR 0x60] @ ''ai_task_implementations/''
     @ [CHR 0x60] @ newline @ newline
     @ ''### Review Notes:'' @ newline
     @ ''- This implementation follows the exact requirements from the GitHub issue'' @ newline
     @ ''- No extra features were added beyond what was requested'' @ newline
     @ ''- Code has been reviewed for accuracy and completeness'' @ newline @ newline
     @ ''---'' @ newline
     @ ''*This PR was automatically generated by the AI Dev Agents system.*''"

definition supported_languages :: "string list" where
  "supported_languages =
     [''python'', ''js'', ''javascript'', ''typescript'', ''java'', ''cpp'', ''c'', ''go'', ''rust'']"

definition ext_map :: "(string \<times> string) list" where
  "ext_map = [(''python'', ''.py''), (''js'', ''.js''), (''javascript'', ''.js''),
     (''typescript'', ''.ts''), (''java'', ''.java''), (''cpp'', ''.cpp''), (''c'', ''.c''),
     (''go'', ''.go''), (''rust'', ''.rs'')]"

text \<open>\<open>ext_map.get(block['language'], '.txt')\<close>\<close>

definition ext_of :: "string \<Rightarrow> string" where
  "ext_of lang = (case map_of ext_map lang of Some ext \<Rightarrow> ext | None \<Rightarrow> ''.txt'')"

definition make_file_path :: "nat \<Rightarrow> string \<Rightarrow> string" where
  "make_file_path i lang =
     ''ai_task_implementations/'' @ (''ai_task_implementation_'' @ str_int (int i + 1) @ ext_of lang)"

definition make_file_message :: "issue \<Rightarrow> string" where
  "make_file_message task = ''Add implementation for issue #'' @ str_int (number task)"

text \<open>
  Step 2 of \<open>_create_pull_request_for_issue\<close>: the loop over \<open>enumerate(code_blocks)\<close>.
  Returns the counter \<open>files_created\<close>, the calls made and the new world.
\<close>

fun create_files ::
  "'w mcp_client \<Rightarrow> string \<Rightarrow> issue \<Rightarrow> string \<Rightarrow> (nat \<times> code_block) list \<Rightarrow> nat \<Rightarrow> 'w
     \<Rightarrow> nat \<times> event list \<times> 'w" where
  "create_files cl repository task branch_name [] files_created w = (files_created, [], w)"
| "create_files cl repository task branch_name ((i, block) # rest) files_created w =
     (if language block \<in> set supported_languages then
        (let file_path = make_file_path i (language block);
             (file_created, w1) =
               create_file cl repository file_path (code block) branch_name (make_file_message task) w;
             (n, evs, w2) =
               create_files cl repository task branch_name rest
                 (if file_created then files_created + 1 else files_created) w1
         in (n, CreateFile repository file_path (code block) branch_name (make_file_message task)
                  file_created # evs, w2))
      else create_files cl repository task branch_name rest files_created w)"

text \<open>\<open>pr_result.get(key, 'unknown')\<close> as an f-string field.\<close>

definition pr_field :: "pull_request \<Rightarrow> string \<Rightarrow> string" where
  "pr_field pr key =
     (case map_of pr key of None \<Rightarrow> ''unknown'' | Some (PInt n) \<Rightarrow> str_int n | Some (PStr s) \<Rightarrow> s)"

text \<open>The strings returned by \<open>_create_pull_request_for_issue\<close>.\<close>

definition no_implementation_message :: string where
  "no_implementation_message = ''No code implementation found in analysis''"

definition branch_failed_message :: "issue \<Rightarrow> string \<Rightarrow> string" where
  "branch_failed_message task branch_name =
     cross_mark @ '' Failed to create branch '' @ branch_name @ '' for issue #'' @ str_int (number task)"

definition no_files_message :: "issue \<Rightarrow> string" where
  "no_files_message task =
     cross_mark @ '' No implementation files were created for issue #'' @ str_int (number task)"

definition pr_created_message :: "pull_request \<Rightarrow> string" where
  "pr_created_message pr_result =
     check_mark @ '' Successfully created pull request #'' @ pr_field pr_result ''number''
       @ '': '' @ pr_field pr_result ''html_url''"

definition pr_failed_message :: "issue \<Rightarrow> string" where
  "pr_failed_message task =
     cross_mark @ '' Failed to create pull request for issue #'' @ str_int (number task)"

text \<open>
  \<open>_create_pull_request_for_issue\<close>: the result string, the calls made and the new world.
  A dictionary is true when it is not empty. The two \<open>except\<close> handlers are not reached,
  as no client method raises.
\<close>

definition create_pull_request_for_issue ::
  "'w mcp_client \<Rightarrow> string \<Rightarrow> issue \<Rightarrow> string \<Rightarrow> 'w \<Rightarrow> string \<times> event list \<times> 'w" where
  "create_pull_request_for_issue cl repository task analysis_result w =
     (let code_blocks = extract_code_blocks analysis_result in
      if code_blocks = [] then (no_implementation_message, [], w)
      else
        (let branch_name = make_branch_name task;
             pr_title = make_pr_title task;
             pr_body = make_pr_body task code_blocks;
             (branch_created, w1) = create_branch cl repository branch_name ''main'' w;
             ev1 = CreateBranch repository branch_name ''main'' branch_created
         in if \<not> branch_created then (branch_failed_message task branch_name, [ev1], w1)
            else
              (let (files_created, evs2, w2) =
                     create_files cl repository task branch_name (enumerate 0 code_blocks) 0 w1
               in if files_created = 0 then (no_files_message task, ev1 # evs2, w2)
                  else
                    (let (pr_result, w3) =
                           create_pull_request cl repository pr_title pr_body branch_name ''main'' w2;
                         ev3 = CreatePullRequest repository pr_title pr_body branch_name ''main'' pr_result
                     in (case pr_result of
                           Some (kv # kvs) \<Rightarrow> (pr_created_message (kv # kvs), ev1 # evs2 @ [ev3], w3)
                         | _ \<Rightarrow> (pr_failed_message task, ev1 # evs2 @ [ev3], w3))))))"

text \<open>\<open>s.split(": ")\<close>, with the segment being read as an accumulator.\<close>

fun split_colon_space :: "string \<Rightarrow> string \<Rightarrow> string list" where
  "split_colon_space cur [] = [cur]"
| "split_colon_space cur [c] = [cur @ [c]]"
| "split_colon_space cur (c # d # s) =
     (if c = CHR '':'' \<and> d = CHR '' '' then cur # split_colon_space [] s
      else split_colon_space (cur @ [c]) (d # s))"

text \<open>\<open>"\n".join(lines)\<close>\<close>

fun join_lines :: "string list \<Rightarrow> string" where
  "join_lines [] = []"
| "join_lines [l] = l"
| "join_lines (l # m # ls) = l @ newline @ join_lines (m # ls)"

text \<open>The comments written by \<open>_take_action_on_issues\<close>.\<close>

definition pr_link_comment :: "string \<Rightarrow> string" where
  "pr_link_comment pr_url =
     robot @ '' AI Agent has created a pull request to address this issue: '' @ pr_url
       @ newline @ newline @ ''Please review the implementation.''"

definition pr_problem_comment :: "string \<Rightarrow> string" where
  "pr_problem_comment pr_result =
     robot @ '' AI Agent attempted to create a pull request but encountered an issue: '' @ pr_result"

definition invalid_comment :: string where
  "invalid_comment =
     robot @ '' AI Agent: This issue appears to be invalid or unclear. Closing as requested.''"

definition completed_comment :: string where
  "completed_comment = robot @ '' AI Agent: This issue has been completed. Closing as requested.''"

definition analysis_comment :: "string \<Rightarrow> string" where
  "analysis_comment analysis_result =
     robot @ '' AI Agent Analysis:'' @ newline @ newline @ take 500 analysis_result @ ''...''"

text \<open>The lines appended to \<open>action_summary\<close>.\<close>

definition processing_line :: "issue \<Rightarrow> string" where
  "processing_line task = newline @ ''Processing Issue #'' @ str_int (number task) @ '': '' @ title task"

definition pr_result_line :: "string \<Rightarrow> string" where
  "pr_result_line pr_result = check_mark @ '' '' @ pr_result"

definition added_comment_line :: "issue \<Rightarrow> string" where
  "added_comment_line task = check_mark @ '' Added comment to issue #'' @ str_int (number task)"

definition closed_invalid_line :: "issue \<Rightarrow> string" where
  "closed_invalid_line task = check_mark @ '' Closed invalid issue #'' @ str_int (number task)"

definition closed_completed_line :: "issue \<Rightarrow> string" where
  "closed_completed_line task = check_mark @ '' Closed completed issue #'' @ str_int (number task)"

definition added_analysis_line :: "issue \<Rightarrow> string" where
  "added_analysis_line task = check_mark @ '' Added analysis comment to issue #'' @ str_int (number task)"

text \<open>
  The comment that follows the pull request attempt: \<open>pr_result.split(": ")[-1]\<close> is the
  last segment of the result.
\<close>

definition follow_up_comment :: "string \<Rightarrow> string" where
  "follow_up_comment pr_result =
     (if contains ''Successfully created pull request'' pr_result then
        pr_link_comment
          (if contains '': '' pr_result then last (split_colon_space [] pr_result)
           else ''Pull request created'')
      else pr_problem_comment pr_result)"

text \<open>
  The body of the loop of \<open>_take_action_on_issues\<close> for one issue: the lines appended to
  \<open>action_summary\<close>, the calls made and the new world. The results of
  \<open>add_issue_comment\<close> and \<open>close_issue\<close> are not read.
\<close>

definition process_issue ::
  "'w mcp_client \<Rightarrow> string \<Rightarrow> string \<Rightarrow> issue \<Rightarrow> 'w \<Rightarrow> string list \<times> event list \<times> 'w" where
  "process_issue cl repository analysis_result task w =
     (if requires_code_changes task then
        (let (pr_result, evs, w1) = create_pull_request_for_issue cl repository task analysis_result w;
             comment = follow_up_comment pr_result;
             (ok, w2) = add_issue_comment cl repository (number task) comment w1
         in ([processing_line task, pr_result_line pr_result, added_comment_line task],
             evs @ [AddIssueComment repository (number task) comment ok], w2))
      else if is_invalid_issue task then
        (let comment = invalid_comment;
             (ok, w1) = close_issue cl repository (number task) (Some comment) w
         in ([processing_line task, closed_invalid_line task],
             [CloseIssue repository (number task) (Some comment) ok], w1))
      else if is_completed_issue task then
        (let comment = completed_comment;
             (ok, w1) = close_issue cl repository (number task) (Some comment) w
         in ([processing_line task, closed_completed_line task],
             [CloseIssue repository (number task) (Some comment) ok], w1))
      else
        (let comment = analysis_comment analysis_result;
             (ok, w1) = add_issue_comment cl repository (number task) comment w
         in ([processing_line task, added_analysis_line task],
             [AddIssueComment repository (number task) comment ok], w1)))"

fun process_issues ::
  "'w mcp_client \<Rightarrow> string \<Rightarrow> string \<Rightarrow> issue list \<Rightarrow> 'w \<Rightarrow> string list \<times> event list \<times> 'w" where
  "process_issues cl repository analysis_result [] w = ([], [], w)"
| "process_issues cl repository analysis_result (task # tasks) w =
     (let (ls1, evs1, w1) = process_issue cl repository analysis_result task w;
          (ls2, evs2, w2) = process_issues cl repository analysis_result tasks w1
      in (ls1 @ ls2, evs1 @ evs2, w2))"

text \<open>\<open>_take_action_on_issues\<close>: the action log, the calls made and the new world.\<close>

definition take_action_on_issues ::
  "'w mcp_client \<Rightarrow> string \<Rightarrow> issue list \<Rightarrow> string \<Rightarrow> 'w \<Rightarrow> string \<times> event list \<times> 'w" where
  "take_action_on_issues cl repository ai_tasks analysis_result w =
     (let (ls, evs, w1) = process_issues cl repository analysis_result ai_tasks w
      in (join_lines ([replicate 50 (CHR ''=''), ''ACTIONS TAKEN ON ISSUES'', replicate 50 (CHR ''='')] @ ls),
          evs, w1))"

section \<open>The gateway: closing an issue\<close>

text \<open>
  \<open>GitHubMCPServer\<close> (mcp_server.py) talks to the GitHub API through an HTTP session. A
  request either raises or is answered with a status code; the session, when there is
  one and it is open, answers as a function of the state of the outside world.
\<close>

datatype http_method = GET | POST | PATCH | PUT

datatype http_reply = Raised | Status nat

record 'w github_server =
  session_usable :: bool
  send :: "http_method \<Rightarrow> string \<Rightarrow> (string \<times> string) list \<Rightarrow> 'w \<Rightarrow> http_reply \<times> 'w"

text \<open>A request made: method, URL, JSON body and the reply.\<close>

datatype http_call = HttpCall http_method string "(string \<times> string) list" http_reply

definition base_url :: string where
  "base_url = ''https://api.github.com''"

definition issue_url :: "string \<Rightarrow> string \<Rightarrow> int \<Rightarrow> string" where
  "issue_url owner repo issue_number =
     base_url @ ''/repos/'' @ owner @ ''/'' @ repo @ ''/issues/'' @ str_int issue_number"

definition comments_url :: "string \<Rightarrow> string \<Rightarrow> int \<Rightarrow> string" where
  "comments_url owner repo issue_number =
     base_url @ ''/repos/'' @ owner @ ''/'' @ repo @ ''/issues/'' @ str_int issue_number @ ''/comments''"

text \<open>
  \<open>GitHubMCPServer.add_issue_comment\<close>: the result, the requests made and the new world.
  Every exception is caught and gives \<open>False\<close>; so does any status other than 201
  (reading the error text there may raise, with the same result).
\<close>

definition server_add_issue_comment ::
  "'w github_server \<Rightarrow> string \<Rightarrow> string \<Rightarrow> int \<Rightarrow> string \<Rightarrow> 'w \<Rightarrow> bool \<times> http_call list \<times> 'w" where
  "server_add_issue_comment srv owner repo issue_number comment w =
     (if \<not> session_usable srv then (False, [], w)
      else
        (let url = comments_url owner repo issue_number;
             (reply, w1) = send srv POST url [(''body'', comment)] w
         in (reply = Status 201, [HttpCall POST url [(''body'', comment)] reply], w1)))"

text \<open>
  \<open>GitHubMCPServer.close_issue\<close>. The comment is optional; \<open>if comment:\<close> holds for a
  comment that is given and not empty. The result of the comment call is not read.
\<close>

definition server_close_issue ::
  "'w github_server \<Rightarrow> string \<Rightarrow> string \<Rightarrow> int \<Rightarrow> string option \<Rightarrow> 'w \<Rightarrow> bool \<times> http_call list \<times> 'w" where
  "server_close_issue srv owner repo issue_number comment w =
     (if \<not> session_usable srv then (False, [], w)
      else
        (let url = issue_url owner repo issue_number;
             update_data = [(''state'', ''closed'')];
             (reply, w1) = send srv PATCH url update_data w;
             call = HttpCall PATCH url update_data reply
         in if reply = Status 200 then
              (case comment of
                 Some (c # cs) \<Rightarrow>
                   (let (added, calls, w2) = server_add_issue_comment srv owner repo issue_number (c # cs) w1
                    in (True, call # calls, w2))
               | _ \<Rightarrow> (True, [call], w1))
            else (False, [call], w1)))"

section \<open>The gateway client\<close>

text \<open>
  \<open>GitHubMCPClient\<close> (github_mcp_client.py) sends each operation as one POST of a JSON
  envelope to the protocol endpoint. JSON values stand for the Python values they decode
  to (\<open>JNull\<close> is \<open>None\<close>; a \<open>JDict\<close> has distinct keys). The exceptions of an operation's
  body are values; the \<open>except Exception\<close> handler around each body turns them into the
  operation's default. The operations carry the prefix \<open>client_\<close>, as the plain names are
  the fields of the client record above.
\<close>

datatype json = JNull | JBool bool | JInt int | JStr string | JList "json list"
  | JDict "(string \<times> json) list"

datatype py_exception =
  IndexError | KeyError | TypeError | AttributeError | ValidationError | JSONDecodeError | ClientError

text \<open>
  The outcome of the POST: the transport raises, or a response arrives with its status
  and its body, \<open>None\<close> when the body is no JSON (\<open>response.json()\<close> raises).
\<close>

datatype transport = TransportError | HttpResponse nat "json option"

definition and_then :: "py_exception + 'a \<Rightarrow> ('a \<Rightarrow> py_exception + 'b) \<Rightarrow> py_exception + 'b" where
  "and_then r f = (case r of Inl e \<Rightarrow> Inl e | Inr v \<Rightarrow> f v)"

text \<open>\<open>try: ... except Exception: return default\<close>\<close>

definition try_except :: "py_exception + 'a \<Rightarrow> 'a \<Rightarrow> py_exception + 'a" where
  "try_except attempt fallback = (case attempt of Inl e \<Rightarrow> Inr fallback | Inr v \<Rightarrow> Inr v)"

text \<open>\<open>d.get(key, default)\<close>, \<open>key in d\<close>, \<open>d[key]\<close> and iteration, on a decoded JSON value.\<close>

fun py_get :: "json \<Rightarrow> string \<Rightarrow> json \<Rightarrow> py_exception + json" where
  "py_get (JDict d) key fallback = Inr (case map_of d key of Some v \<Rightarrow> v | None \<Rightarrow> fallback)"
| "py_get x key fallback = Inl AttributeError"

fun py_in :: "string \<Rightarrow> json \<Rightarrow> py_exception + bool" where
  "py_in key (JDict d) = Inr (map_of d key \<noteq> None)"
| "py_in key (JList xs) = Inr (JStr key \<in> set xs)"
| "py_in key (JStr s) = Inr (contains key s)"
| "py_in key x = Inl TypeError"

fun py_getitem :: "json \<Rightarrow> string \<Rightarrow> py_exception + json" where
  "py_getitem (JDict d) key = (case map_of d key of Some v \<Rightarrow> Inr v | None \<Rightarrow> Inl KeyError)"
| "py_getitem x key = Inl TypeError"

fun py_iter :: "json \<Rightarrow> py_exception + json list" where
  "py_iter (JList xs) = Inr xs"
| "py_iter (JDict d) = Inr (map (\<lambda>kv. JStr (fst kv)) d)"
| "py_iter (JStr s) = Inr (map (\<lambda>c. JStr [c]) s)"
| "py_iter x = Inl TypeError"

text \<open>\<open>repository.split('/')\<close>, and the owner and the repository taken from it.\<close>

fun split_slash :: "string \<Rightarrow> string \<Rightarrow> string list" where
  "split_slash cur [] = [cur]"
| "split_slash cur (c # s) =
     (if c = CHR ''/'' then cur # split_slash [] s else split_slash (cur @ [c]) s)"

definition owner_repo :: "string \<Rightarrow> py_exception + (string \<times> string)" where
  "owner_repo repository =
     (case split_slash [] repository of
        owner # repo # rest \<Rightarrow> Inr (owner, repo)
      | _ \<Rightarrow> Inl IndexError)"

text \<open>
  The loop over the issues of a response. \<open>validate\<close> is the constructor
  \<open>GitHubIssue(**issue_data)\<close> of the pydantic model, \<open>None\<close> when it raises. An issue
  that does not validate is skipped with a warning; the warning reads
  \<open>issue_data.get\<close>, which raises when the entry is no dictionary.
\<close>

fun parse_issues :: "((string \<times> json) list \<Rightarrow> issue option) \<Rightarrow> json list \<Rightarrow> py_exception + issue list" where
  "parse_issues validate [] = Inr []"
| "parse_issues validate (JDict d # rest) =
     (case validate d of
        Some issue \<Rightarrow> and_then (parse_issues validate rest) (\<lambda>issues. Inr (issue # issues))
      | None \<Rightarrow> parse_issues validate rest)"
| "parse_issues validate (x # rest) = Inl AttributeError"

definition envelope :: "string \<Rightarrow> (string \<times> json) list \<Rightarrow> json" where
  "envelope method params = JDict [(''method'', JStr method), (''params'', JDict params)]"

text \<open>
  The part shared by the operations: the POST and the status check. A status other than
  200 gives the default (reading the error text there may raise, with the same result).
\<close>

definition call ::
  "(json \<Rightarrow> transport) \<Rightarrow> json \<Rightarrow> 'a \<Rightarrow> (json \<Rightarrow> py_exception + 'a) \<Rightarrow> py_exception + 'a" where
  "call post payload fallback on_ok =
     (case post payload of
        TransportError \<Rightarrow> Inl ClientError
      | HttpResponse status content \<Rightarrow>
          if status = 200 then
            (case content of None \<Rightarrow> Inl JSONDecodeError | Some data \<Rightarrow> on_ok data)
          else Inr fallback)"

definition issues_of_response ::
  "((string \<times> json) list \<Rightarrow> issue option) \<Rightarrow> json \<Rightarrow> py_exception + issue list" where
  "issues_of_response validate data =
     and_then (py_in ''result'' data) (\<lambda>has_result.
       if \<not> has_result then Inr []
       else and_then (py_getitem data ''result'') (\<lambda>result.
         and_then (py_in ''issues'' result) (\<lambda>has_issues.
           if \<not> has_issues then Inr []
           else and_then (py_getitem result ''issues'') (\<lambda>issues.
             and_then (py_iter issues) (parse_issues validate)))))"

definition client_get_issues_by_label ::
  "((string \<times> json) list \<Rightarrow> issue option) \<Rightarrow> (json \<Rightarrow> transport) \<Rightarrow> string \<Rightarrow> string
     \<Rightarrow> py_exception + issue list" where
  "client_get_issues_by_label validate post repository label =
     try_except
       (and_then (owner_repo repository) (\<lambda>(owner, repo).
          call post
            (envelope ''github.list_issues''
               [(''owner'', JStr owner), (''repo'', JStr repo), (''labels'', JList [JStr label]),
                (''state'', JStr ''all'')])
            [] (issues_of_response validate)))
       []"

definition client_get_all_open_issues ::
  "((string \<times> json) list \<Rightarrow> issue option) \<Rightarrow> (json \<Rightarrow> transport) \<Rightarrow> string
     \<Rightarrow> py_exception + issue list" where
  "client_get_all_open_issues validate post repository =
     try_except
       (and_then (owner_repo repository) (\<lambda>(owner, repo).
          call post
            (envelope ''github.list_issues''
               [(''owner'', JStr owner), (''repo'', JStr repo), (''state'', JStr ''open'')])
            [] (issues_of_response validate)))
       []"

text \<open>\<open>GitHubIssue(**x)\<close> for a decoded value \<open>x\<close>: a mapping is needed, and it must validate.\<close>

fun construct_issue :: "((string \<times> json) list \<Rightarrow> issue option) \<Rightarrow> json \<Rightarrow> py_exception + issue" where
  "construct_issue validate (JDict d) =
     (case validate d of Some issue \<Rightarrow> Inr issue | None \<Rightarrow> Inl ValidationError)"
| "construct_issue validate x = Inl TypeError"

definition client_get_issue_details ::
  "((string \<times> json) list \<Rightarrow> issue option) \<Rightarrow> (json \<Rightarrow> transport) \<Rightarrow> string \<Rightarrow> int
     \<Rightarrow> py_exception + issue option" where
  "client_get_issue_details validate post repository issue_number =
     try_except
       (and_then (owner_repo repository) (\<lambda>(owner, repo).
          call post
            (envelope ''github.get_issue''
               [(''owner'', JStr owner), (''repo'', JStr repo), (''issue_number'', JInt issue_number)])
            None
            (\<lambda>data.
               and_then (py_in ''result'' data) (\<lambda>has_result.
                 if \<not> has_result then Inr None
                 else and_then (py_getitem data ''result'') (\<lambda>result.
                   and_then (py_in ''issue'' result) (\<lambda>has_issue.
                     if \<not> has_issue then Inr None
                     else and_then (py_getitem result ''issue'') (\<lambda>x.
                       and_then (construct_issue validate x) (\<lambda>issue. Inr (Some issue)))))))))
       None"

text \<open>\<open>data.get("result", {}).get(key, default)\<close>\<close>

definition result_field :: "string \<Rightarrow> json \<Rightarrow> json \<Rightarrow> py_exception + json" where
  "result_field key fallback data =
     and_then (py_get data ''result'' (JDict [])) (\<lambda>result. py_get result key fallback)"

definition client_close_issue ::
  "(json \<Rightarrow> transport) \<Rightarrow> string \<Rightarrow> int \<Rightarrow> string option \<Rightarrow> py_exception + json" where
  "client_close_issue post repository issue_number comment =
     try_except
       (and_then (owner_repo repository) (\<lambda>(owner, repo).
          call post
            (envelope ''github.close_issue''
               [(''owner'', JStr owner), (''repo'', JStr repo), (''issue_number'', JInt issue_number),
                (''comment'', (case comment of None \<Rightarrow> JNull | Some c \<Rightarrow> JStr c))])
            (JBool False) (result_field ''success'' (JBool False))))
       (JBool False)"

definition client_add_issue_comment ::
  "(json \<Rightarrow> transport) \<Rightarrow> string \<Rightarrow> int \<Rightarrow> string \<Rightarrow> py_exception + json" where
  "client_add_issue_comment post repository issue_number comment =
     try_except
       (and_then (owner_repo repository) (\<lambda>(owner, repo).
          call post
            (envelope ''github.add_issue_comment''
               [(''owner'', JStr owner), (''repo'', JStr repo), (''issue_number'', JInt issue_number),
                (''comment'', JStr comment)])
            (JBool False) (result_field ''success'' (JBool False))))
       (JBool False)"

definition client_create_pull_request ::
  "(json \<Rightarrow> transport) \<Rightarrow> string \<Rightarrow> string \<Rightarrow> string \<Rightarrow> string \<Rightarrow> string \<Rightarrow> py_exception + json" where
  "client_create_pull_request post repository pr_title pr_body head base =
     try_except
       (and_then (owner_repo repository) (\<lambda>(owner, repo).
          call post
            (envelope ''github.create_pull_request''
               [(''owner'', JStr owner), (''repo'', JStr repo), (''title'', JStr pr_title),
                (''body'', JStr pr_body), (''head'', JStr head), (''base'', JStr base)])
            JNull (result_field ''pull_request'' JNull)))
       JNull"

definition client_create_branch ::
  "(json \<Rightarrow> transport) \<Rightarrow> string \<Rightarrow> string \<Rightarrow> string \<Rightarrow> py_exception + json" where
  "client_create_branch post repository branch_name base_branch =
     try_except
       (and_then (owner_repo repository) (\<lambda>(owner, repo).
          call post
            (envelope ''github.create_branch''
               [(''owner'', JStr owner), (''repo'', JStr repo), (''branch_name'', JStr branch_name),
                (''base_branch'', JStr base_branch)])
            (JBool False) (result_field ''success'' (JBool False))))
       (JBool False)"

definition client_create_file ::
  "(json \<Rightarrow> transport) \<Rightarrow> string \<Rightarrow> string \<Rightarrow> string \<Rightarrow> string \<Rightarrow> string \<Rightarrow> py_exception + json" where
  "client_create_file post repository path content branch message =
     try_except
       (and_then (owner_repo repository) (\<lambda>(owner, repo).
          call post
            (envelope ''github.create_file''
               [(''owner'', JStr owner), (''repo'', JStr repo), (''path'', JStr path),
                (''content'', JStr content), (''branch'', JStr branch), (''message'', JStr message)])
            (JBool False) (result_field ''success'' (JBool False))))
       (JBool False)"

section \<open>Notions used to state the properties\<close>

text \<open>What a call in the trace was, and how it ended.\<close>

fun branch_created :: "event \<Rightarrow> bool" where
  "branch_created (CreateBranch r b m ok) = ok"
| "branch_created e = False"

fun branch_failed :: "event \<Rightarrow> bool" where
  "branch_failed (CreateBranch r b m ok) = (\<not> ok)"
| "branch_failed e = False"

fun created_path :: "event \<Rightarrow> string" where
  "created_path (CreateFile r p c b m ok) = p"
| "created_path e = []"

text \<open>
  The pull request a trace ends with, when its last call is a pull-request call that
  returned a non-empty dictionary.
\<close>

fun created_pr :: "event \<Rightarrow> pull_request option" where
  "created_pr (CreatePullRequest r t b h m (Some (kv # kvs))) = Some (kv # kvs)"
| "created_pr e = None"

definition pr_outcome :: "event list \<Rightarrow> pull_request option" where
  "pr_outcome evs = (if evs = [] then None else created_pr (last evs))"





text \<open>
  The extension map as the specification lists it, and the file paths it asks for: one
  path for a block with a supported tag, at the block's 1-based position, none otherwise.
\<close>

definition spec_extension :: "string \<Rightarrow> string option" where
  "spec_extension tag =
     (if tag = ''python'' then Some ''.py''
      else if tag = ''js'' \<or> tag = ''javascript'' then Some ''.js''
      else if tag = ''typescript'' then Some ''.ts''
      else if tag = ''java'' then Some ''.java''
      else if tag = ''cpp'' then Some ''.cpp''
      else if tag = ''c'' then Some ''.c''
      else if tag = ''go'' then Some ''.go''
      else if tag = ''rust'' then Some ''.rs''
      else None)"

definition spec_paths :: "(nat \<times> code_block) \<Rightarrow> string list" where
  "spec_paths ib =
     (case spec_extension (language (snd ib)) of
        Some ext \<Rightarrow> [''ai_task_implementations/ai_task_implementation_'' @ str_int (int (fst ib) + 1) @ ext]
      | None \<Rightarrow> [])"

text \<open>
  The classification as the specification words it: the first of the three keyword sets
  with a keyword occurring in the lower-cased title, space and body decides; and the log
  line that closes the entry of an issue, one per action.
\<close>

datatype action = RequiresCodeChange | Invalid | Completed | NeedsAnalysisComment



text \<open>A POST that ends in a transport exception or in a response with a status outside 200..299.\<close>

fun soft_failure :: "transport \<Rightarrow> bool" where
  "soft_failure TransportError = True"
| "soft_failure (HttpResponse status content) = (status < 200 \<or> 300 \<le> status)"

section \<open>Sample inputs\<close>

text \<open>Issues, analyses, clients and servers on which the properties are instantiated.\<close>

definition issue_123 :: issue where
  "issue_123 = \<lparr>number = 123, title = ''Implement Sentiment analysis API (v2)!'',
     body = ''Requirements'', state = ''open'', labels = [[(''name'', ''ai-task'')]],
     created_at = ''2024-01-01T00:00:00Z'', updated_at = ''2024-01-01T00:00:00Z'',
     html_url = ''https://github.com/test/repo/issues/123''\<rparr>"

definition issue_124 :: issue where
  "issue_124 = \<lparr>number = 124, title = ''Invalid test issue'',
     body = ''This is an invalid test issue that should be closed.'', state = ''open'',
     labels = [[(''name'', ''ai-task'')]],
     created_at = ''2024-01-01T00:00:00Z'', updated_at = ''2024-01-01T00:00:00Z'',
     html_url = ''https://github.com/test/repo/issues/124''\<rparr>"

definition issue_126 :: issue where
  "issue_126 = \<lparr>number = 126, title = ''Question'',
     body = ''What is this?'', state = ''open'',
     labels = [[(''name'', ''ai-task'')]],
     created_at = ''2024-01-01T00:00:00Z'', updated_at = ''2024-01-01T00:00:00Z'',
     html_url = ''https://github.com/test/repo/issues/126''\<rparr>"


definition pr_7 :: pull_request where
  "pr_7 = [(''number'', PInt 7), (''html_url'', PStr ''https://github.com/test/repo/pull/7'')]"

text \<open>An analysis that holds a \<open>yaml\<close> block followed by a \<open>go\<close> block.\<close>

definition yaml_go_analysis :: string where
  "yaml_go_analysis =
     ''Settings:'' @ newline @ fence @ ''yaml'' @ newline @ ''a: 1'' @ newline @ fence @ newline
     @ ''Program:'' @ newline @ fence @ ''go'' @ newline @ ''package main'' @ newline @ fence"

text \<open>A client whose answers are fixed in advance; its world counts the calls made.\<close>

definition scripted_client ::
  "bool \<Rightarrow> bool \<Rightarrow> pull_request option \<Rightarrow> bool \<Rightarrow> bool \<Rightarrow> nat mcp_client" where
  "scripted_client branch_ok file_ok pr comment_ok close_ok =
     \<lparr>close_issue = (\<lambda>repository n comment w. (close_ok, Suc w)),
      add_issue_comment = (\<lambda>repository n comment w. (comment_ok, Suc w)),
      create_branch = (\<lambda>repository branch_name base_branch w. (branch_ok, Suc w)),
      create_file = (\<lambda>repository path content branch message w. (file_ok, Suc w)),
      create_pull_request = (\<lambda>repository title body head base w. (pr, Suc w))\<rparr>"

definition gated_run :: "string \<times> event list \<times> nat" where
  "gated_run = create_pull_request_for_issue (scripted_client True True (Some pr_7) True True)
     ''test/repo'' issue_123 yaml_go_analysis 0"

definition commented_run :: "string list \<times> event list \<times> nat" where
  "commented_run = process_issue (scripted_client True True (Some pr_7) True True)
     ''test/repo'' yaml_go_analysis issue_123 0"

text \<open>A server that closes issues and fails to post comments; two failing endpoints.\<close>

definition flaky_server :: "nat github_server" where
  "flaky_server =
     \<lparr>session_usable = True,
      send = (\<lambda>m url payload w. (if m = PATCH then Status 200 else Status 500, Suc w))\<rparr>"

definition server_error :: "json \<Rightarrow> transport" where
  "server_error payload = HttpResponse 500 (Some (JDict [(''error'', JStr ''boom'')]))"

definition connection_refused :: "json \<Rightarrow> transport" where
  "connection_refused payload = TransportError"

section \<open>Branch names\<close>

lemma is_digit_digit_char: "d < 10 \<Longrightarrow> is_digit (digit_char d)"
  by (simp add: is_digit_def digit_char_def)

lemma digits_of_digits: "\<forall>c \<in> set (digits_of n). is_digit c"
proof (induction n rule: digits_of.induct)
  case (1 n)
  show ?case
  proof (cases "n < 10")
    case True
    then show ?thesis
      by (subst digits_of.simps) (simp add: is_digit_digit_char)
  next
    case False
    with 1 show ?thesis
      by (subst digits_of.simps) (simp add: is_digit_digit_char)
  qed
qed






section \<open>Round trip of the extractor\<close>










section \<open>The pull request sequence\<close>

lemma create_files_events:
  "create_files cl repository task branch_name ibs k w = (n, evs, w') \<Longrightarrow>
     list_all is_create_file evs
     \<and> n = k + length (filter is_file_created evs)
     \<and> map created_path evs
         = map (\<lambda>(i, b). make_file_path i (language b))
             (filter (\<lambda>(i, b). language b \<in> set supported_languages) ibs)"
proof (induction ibs arbitrary: k w n evs w')
  case Nil
  then show ?case by simp
next
  case (Cons ib ibs)
  obtain i block where ib: "ib = (i, block)" by (cases ib)
  show ?case
  proof (cases "language block \<in> set supported_languages")
    case False
    with Cons.prems ib
    have "create_files cl repository task branch_name ibs k w = (n, evs, w')"
      by simp
    from Cons.IH [OF this] False ib show ?thesis by simp
  next
    case True
    obtain ok w1 where cf: "create_file cl repository (make_file_path i (language block)) (code block)
        branch_name (make_file_message task) w = (ok, w1)"
      by (cases "create_file cl repository (make_file_path i (language block)) (code block)
        branch_name (make_file_message task) w")
    obtain n2 evs2 w2 where rec: "create_files cl repository task branch_name ibs
        (if ok then k + 1 else k) w1 = (n2, evs2, w2)"
      by (cases "create_files cl repository task branch_name ibs (if ok then k + 1 else k) w1")
    from Cons.prems ib True cf rec
    have res: "n = n2" "w' = w2"
      "evs = CreateFile repository (make_file_path i (language block)) (code block) branch_name
               (make_file_message task) ok # evs2"
      by (simp_all add: Let_def)
    from Cons.IH [OF rec] res True ib show ?thesis
      by (cases ok) simp_all
  qed
qed

lemma cprfi_cases:
  assumes run: "create_pull_request_for_issue cl repository task analysis_result w = (res, evs, w')"
  defines "blocks \<equiv> extract_code_blocks analysis_result"
  defines "bn \<equiv> make_branch_name task"
  obtains
      (none) "blocks = []" "evs = []" "res = no_implementation_message"
    | (nobranch) "blocks \<noteq> []" "evs = [CreateBranch repository bn ''main'' False]"
        "res = branch_failed_message task bn"
    | (nofiles) w1 fevs w2 where "blocks \<noteq> []"
        "create_files cl repository task bn (enumerate 0 blocks) 0 w1 = (0, fevs, w2)"
        "evs = CreateBranch repository bn ''main'' True # fevs"
        "res = no_files_message task"
    | (prfailed) w1 n fevs w2 pr where "blocks \<noteq> []"
        "create_files cl repository task bn (enumerate 0 blocks) 0 w1 = (n, fevs, w2)" "0 < n"
        "evs = CreateBranch repository bn ''main'' True # fevs
                 @ [CreatePullRequest repository (make_pr_title task) (make_pr_body task blocks) bn ''main'' pr]"
        "pr = None \<or> pr = Some []"
        "res = pr_failed_message task"
    | (prcreated) w1 n fevs w2 kv kvs where "blocks \<noteq> []"
        "create_files cl repository task bn (enumerate 0 blocks) 0 w1 = (n, fevs, w2)" "0 < n"
        "evs = CreateBranch repository bn ''main'' True # fevs
                 @ [CreatePullRequest repository (make_pr_title task) (make_pr_body task blocks) bn ''main''
                      (Some (kv # kvs))]"
        "res = pr_created_message (kv # kvs)"
proof (cases "blocks = []")
  case True
  with run none show ?thesis
    by (simp add: create_pull_request_for_issue_def blocks_def)
next
  case nonempty: False
  obtain ok w1 where cb: "create_branch cl repository bn ''main'' w = (ok, w1)"
    by (cases "create_branch cl repository bn ''main'' w")
  show ?thesis
  proof (cases ok)
    case False
    with run nonempty cb have "evs = [CreateBranch repository bn ''main'' False]"
        "res = branch_failed_message task bn"
      by (simp_all add: create_pull_request_for_issue_def blocks_def bn_def Let_def)
    with nonempty show ?thesis by (rule nobranch)
  next
    case branch_ok: True
    obtain n fevs w2 where cf:
      "create_files cl repository task bn (enumerate 0 blocks) 0 w1 = (n, fevs, w2)"
      by (cases "create_files cl repository task bn (enumerate 0 blocks) 0 w1")
    show ?thesis
    proof (cases "n = 0")
      case True
      with run nonempty cb branch_ok cf have
        "evs = CreateBranch repository bn ''main'' True # fevs"
        "res = no_files_message task"
        by (simp_all add: create_pull_request_for_issue_def blocks_def bn_def Let_def)
      with nonempty cf True show ?thesis by (intro nofiles [of w1 fevs w2]) simp_all
    next
      case False
      then have pos: "0 < n" by simp
      obtain pr w3 where cp: "create_pull_request cl repository (make_pr_title task)
          (make_pr_body task blocks) bn ''main'' w2 = (pr, w3)"
        by (cases "create_pull_request cl repository (make_pr_title task)
          (make_pr_body task blocks) bn ''main'' w2")
      from run nonempty cb branch_ok cf False cp have e:
        "evs = CreateBranch repository bn ''main'' True # fevs
                 @ [CreatePullRequest repository (make_pr_title task) (make_pr_body task blocks) bn ''main'' pr]"
        by (auto simp add: create_pull_request_for_issue_def blocks_def bn_def Let_def
            split: option.splits list.splits)
      show ?thesis
      proof (cases "pr = None \<or> pr = Some []")
        case True
        with run nonempty cb branch_ok cf False cp have "res = pr_failed_message task"
          by (auto simp add: create_pull_request_for_issue_def blocks_def bn_def Let_def)
        with nonempty cf pos e True show ?thesis by (intro prfailed [of w1 n fevs w2 pr]) simp_all
      next
        case False
        then obtain kv kvs where pr: "pr = Some (kv # kvs)"
          by (cases pr) (auto simp: neq_Nil_conv)
        with run nonempty cb branch_ok cf \<open>n \<noteq> 0\<close> cp have "res = pr_created_message (kv # kvs)"
          by (auto simp add: create_pull_request_for_issue_def blocks_def bn_def Let_def)
        with nonempty cf pos e pr show ?thesis by (intro prcreated [of w1 n fevs w2 kv kvs]) simp_all
      qed
    qed
  qed
qed

lemma create_files_created:
  assumes "create_files cl repository task bn ibs 0 w1 = (n, fevs, w2)"
  shows "list_all is_create_file fevs" and "0 < n \<longleftrightarrow> list_ex is_file_created fevs"
  using create_files_events [OF assms]
  by (auto simp: list_ex_iff filter_empty_conv)

lemma cprfi_shape:
  assumes run: "create_pull_request_for_issue cl repository task analysis_result w = (res, evs, w')"
  obtains
      (none) "extract_code_blocks analysis_result = []" "evs = []" "res = no_implementation_message"
    | (nobranch) r b m where "extract_code_blocks analysis_result \<noteq> []"
        "evs = [CreateBranch r b m False]"
    | (nofiles) r b m fevs where "extract_code_blocks analysis_result \<noteq> []"
        "evs = CreateBranch r b m True # fevs" "list_all is_create_file fevs"
        "\<not> list_ex is_file_created fevs"
    | (pr) r b m fevs r' t bd h m' pr where "extract_code_blocks analysis_result \<noteq> []"
        "evs = CreateBranch r b m True # fevs @ [CreatePullRequest r' t bd h m' pr]"
        "list_all is_create_file fevs" "list_ex is_file_created fevs"
  using run
proof (cases rule: cprfi_cases)
  case none
  then show ?thesis by (rule that(1))
next
  case nobranch
  then show ?thesis using that(2) by blast
next
  case (nofiles w1 fevs w2)
  from create_files_created [OF nofiles(2)] nofiles(1,3) show ?thesis
    using that(3) by blast
next
  case (prfailed w1 n fevs w2 pr)
  from create_files_created [OF prfailed(2)] prfailed(1,3,4) show ?thesis
    using that(4) by blast
next
  case (prcreated w1 n fevs w2 kv kvs)
  from create_files_created [OF prcreated(2)] prcreated(1,3,4) show ?thesis
    using that(4) by blast
qed

section \<open>The follow-up comment\<close>

lemma starts_with_append: "starts_with k (k @ q)"
  by (induction k) simp_all

lemma contains_suffix: "contains k s \<Longrightarrow> contains k (p @ s)"
  by (induction p) simp_all

lemma contains_append: "contains k (p @ k @ q)"
proof -
  have "contains k (k @ q)"
    by (cases "k @ q") (use starts_with_append [of k q] in \<open>auto simp: starts_with_append\<close>)
  then show ?thesis by (rule contains_suffix)
qed

lemma starts_with_hd: "starts_with k s \<Longrightarrow> k \<noteq> [] \<Longrightarrow> hd k \<in> set s"
  by (cases k; cases s) auto

lemma contains_hd: "contains k s \<Longrightarrow> k \<noteq> [] \<Longrightarrow> hd k \<in> set s"
proof (induction s)
  case Nil
  then show ?case by simp
next
  case (Cons c cs)
  then show ?case using starts_with_hd [of k "c # cs"] by auto
qed

lemma split_no_separator:
  "\<not> contains '': '' u \<Longrightarrow> split_colon_space cur u = [cur @ u]"
proof (induction cur u rule: split_colon_space.induct)
  case (1 cur)
  then show ?case by simp
next
  case (2 cur c)
  then show ?case by simp
next
  case (3 cur c d s)
  then show ?case by auto
qed

lemma split_nonempty: "split_colon_space cur s \<noteq> []"
  by (induction cur s rule: split_colon_space.induct) simp_all

lemma last_split_after_separator:
  "last (split_colon_space cur (p @ '': '' @ u)) = last (split_colon_space [] u)"
proof (induction cur p rule: split_colon_space.induct)
  case (1 cur)
  then show ?case by (simp add: split_nonempty)
next
  case (2 cur c)
  then show ?case by (simp add: split_nonempty)
next
  case (3 cur c d s)
  then show ?case by (simp add: split_nonempty)
qed

lemma last_split_url:
  "\<not> contains '': '' u \<Longrightarrow> last (split_colon_space [] (p @ '': '' @ u)) = u"
  using last_split_after_separator [of "[]" p u] split_no_separator [of u "[]"] by simp

lemma not_upper_lower_char: "\<not> is_upper (lower_char c)"
  by (auto simp: lower_char_def is_upper_def)

lemma str_int_not_upper: "c \<in> set (str_int i) \<Longrightarrow> \<not> is_upper c"
  using digits_of_digits [of "nat i"] digits_of_digits [of "nat (- i)"]
  by (auto simp: str_int_def is_digit_def is_upper_def split: if_splits)

lemma branch_name_not_upper:
  assumes "c \<in> set (make_branch_name task)"
  shows "\<not> is_upper c"
proof -
  let ?slug = "take 30 (replace_char (CHR '' '') (CHR ''-'') (py_lower (title task)))"
  from assms have "c \<in> set (''ai-task-'' @ str_int (number task) @ ''-'' @ ?slug)"
    unfolding make_branch_name_def by (rule filter_is_subset [THEN subsetD])
  then have "c \<in> set ''ai-task-'' \<or> c \<in> set (str_int (number task)) \<or> c \<in> set ''-''
      \<or> c \<in> set ?slug"
    by (simp only: set_append Un_iff)
  moreover have "\<not> is_upper c" if "c \<in> set ''ai-task-''"
    using that by (auto simp: is_upper_def)
  moreover have "\<not> is_upper c" if "c \<in> set ''-''"
    using that by (auto simp: is_upper_def)
  moreover have "\<not> is_upper c" if "c \<in> set ?slug"
  proof -
    from that have "c \<in> set (replace_char (CHR '' '') (CHR ''-'') (py_lower (title task)))"
      by (rule in_set_takeD)
    then have "c = CHR ''-'' \<or> c \<in> set (py_lower (title task))"
      by (auto simp: replace_char_def split: if_splits)
    moreover have "\<not> is_upper (CHR ''-'')"
      by (simp add: is_upper_def)
    ultimately show ?thesis
      by (auto simp: py_lower_def not_upper_lower_char)
  qed
  ultimately show ?thesis
    using str_int_not_upper by blast
qed

lemma upper_S: "is_upper (CHR ''S'')"
  by (simp add: is_upper_def)

lemma follow_up_problem:
  assumes "CHR ''S'' \<notin> set m"
  shows "follow_up_comment m = pr_problem_comment m"
proof -
  have "\<not> contains ''Successfully created pull request'' m"
  proof
    assume "contains ''Successfully created pull request'' m"
    then have "hd ''Successfully created pull request'' \<in> set m"
      by (rule contains_hd) simp
    with assms show False by simp
  qed
  then show ?thesis by (simp add: follow_up_comment_def)
qed

lemma cross_mark_no_S: "CHR ''S'' \<notin> set cross_mark"
  by (simp add: cross_mark_def)

lemma str_int_no_S: "CHR ''S'' \<notin> set (str_int i)"
  using str_int_not_upper upper_S by blast

lemma branch_name_no_S: "CHR ''S'' \<notin> set (make_branch_name task)"
  using branch_name_not_upper upper_S by blast

lemma follow_up_no_implementation:
  "follow_up_comment no_implementation_message = pr_problem_comment no_implementation_message"
  by (rule follow_up_problem) (simp add: no_implementation_message_def)

lemma follow_up_branch_failed:
  "follow_up_comment (branch_failed_message task (make_branch_name task))
     = pr_problem_comment (branch_failed_message task (make_branch_name task))"
proof (rule follow_up_problem)
  have "CHR ''S'' \<notin> set '' Failed to create branch ''" "CHR ''S'' \<notin> set '' for issue #''"
    by simp_all
  with cross_mark_no_S str_int_no_S branch_name_no_S
  show "CHR ''S'' \<notin> set (branch_failed_message task (make_branch_name task))"
    unfolding branch_failed_message_def by (simp only: set_append Un_iff) blast
qed

lemma follow_up_no_files:
  "follow_up_comment (no_files_message task) = pr_problem_comment (no_files_message task)"
proof (rule follow_up_problem)
  have "CHR ''S'' \<notin> set '' No implementation files were created for issue #''"
    by simp
  with cross_mark_no_S str_int_no_S
  show "CHR ''S'' \<notin> set (no_files_message task)"
    unfolding no_files_message_def by (simp only: set_append Un_iff) blast
qed

lemma follow_up_pr_failed:
  "follow_up_comment (pr_failed_message task) = pr_problem_comment (pr_failed_message task)"
proof (rule follow_up_problem)
  have "CHR ''S'' \<notin> set '' Failed to create pull request for issue #''"
    by simp
  with cross_mark_no_S str_int_no_S
  show "CHR ''S'' \<notin> set (pr_failed_message task)"
    unfolding pr_failed_message_def by (simp only: set_append Un_iff) blast
qed

lemma follow_up_created:
  assumes "\<not> contains '': '' (pr_field pr ''html_url'')"
  shows "follow_up_comment (pr_created_message pr) = pr_link_comment (pr_field pr ''html_url'')"
proof -
  have e1: "pr_created_message pr = (check_mark @ '' '') @ ''Successfully created pull request''
      @ ('' #'' @ pr_field pr ''number'' @ '': '' @ pr_field pr ''html_url'')"
    by (simp add: pr_created_message_def)
  have e2: "pr_created_message pr
      = (check_mark @ '' Successfully created pull request #'' @ pr_field pr ''number'')
        @ '': '' @ pr_field pr ''html_url''"
    by (simp add: pr_created_message_def)
  have c1: "contains ''Successfully created pull request'' (pr_created_message pr)"
    by (subst e1) (rule contains_append)
  have c2: "contains '': '' (pr_created_message pr)"
    by (subst e2) (rule contains_append)
  have l: "last (split_colon_space [] (pr_created_message pr)) = pr_field pr ''html_url''"
    by (subst e2) (rule last_split_url [OF assms])
  from c1 c2 l show ?thesis
    by (simp only: follow_up_comment_def if_True)
qed

section \<open>Gating of the pull request sequence\<close>

lemma gated_run_events:
  "fst (snd gated_run)
  = [CreateBranch ''test/repo'' ''ai-task-123-implement-sentiment-analysis-a'' ''main'' True,
     CreateFile ''test/repo'' ''ai_task_implementations/ai_task_implementation_2.go'' ''package main''
       ''ai-task-123-implement-sentiment-analysis-a'' ''Add implementation for issue #123'' True,
     CreatePullRequest ''test/repo'' (make_pr_title issue_123)
       (make_pr_body issue_123 (extract_code_blocks yaml_go_analysis))
       ''ai-task-123-implement-sentiment-analysis-a'' ''main'' (Some pr_7)]"
  by code_simp

text \<open>
  C2. In \<open>_create_pull_request_for_issue\<close>: when no code block is extracted, no call is
  made at all and the result is the message that no implementation was found; a
  file-creation call is made only after the first call, a branch creation that succeeded;
  a pull-request call is made only after a successful branch creation and after at
  least one file-creation call that succeeded; and a failed branch creation is the only
  call of its sequence.
\<close>

theorem pr_sequence_gated:
  assumes run: "create_pull_request_for_issue cl repository task analysis_result w = (res, evs, w')"
  shows "(extract_code_blocks analysis_result = [] \<longrightarrow>
            evs = [] \<and> res = ''No code implementation found in analysis'')
    \<and> (\<forall>i < length evs. is_create_file (evs ! i) \<longrightarrow> 0 < i \<and> branch_created (evs ! 0))
    \<and> (\<forall>i < length evs. is_create_pr (evs ! i) \<longrightarrow>
            branch_created (evs ! 0) \<and> (\<exists>j. 0 < j \<and> j < i \<and> is_file_created (evs ! j)))
    \<and> (\<forall>i < length evs. branch_failed (evs ! i) \<longrightarrow> evs = [evs ! i])"
  using run
proof (cases rule: cprfi_shape)
  case none
  then show ?thesis by (simp add: no_implementation_message_def)
next
  case nobranch
  then show ?thesis by simp
next
  case (nofiles r b m fevs)
  have f: "is_create_file (fevs ! k)" if "k < length fevs" for k
    using nofiles(3) that by (simp add: list_all_length)
  have a: "\<not> is_create_pr e \<and> \<not> branch_failed e" if "is_create_file e" for e
    using that by (cases e) simp_all
  show ?thesis
    using nofiles(1,2) f a
    by (auto simp: nth_Cons')
next
  case (pr r b m fevs r' t bd h m' pr)
  have f: "is_create_file (fevs ! k)" if "k < length fevs" for k
    using pr(3) that by (simp add: list_all_length)
  have a: "\<not> is_create_pr e \<and> \<not> branch_failed e" if "is_create_file e" for e
    using that by (cases e) simp_all
  from pr(4) obtain k where k: "k < length fevs" "is_file_created (fevs ! k)"
    by (auto simp: list_ex_length)
  have ex: "\<exists>j. 0 < j \<and> j < i \<and> is_file_created (evs ! j)" if "i = Suc (length fevs)" for i
    using k that pr(2) by (intro exI [of _ "Suc k"]) (simp add: nth_append)
  have pos: "i = 0 \<or> (\<exists>i'. i = Suc i' \<and> i' < length fevs \<and> evs ! i = fevs ! i')
      \<or> (i = Suc (length fevs) \<and> evs ! i = CreatePullRequest r' t bd h m' pr)"
    if "i < length evs" for i
  proof (cases i)
    case 0
    then show ?thesis by simp
  next
    case (Suc i')
    show ?thesis
    proof (cases "i' < length fevs")
      case True
      with Suc pr(2) show ?thesis by (simp add: nth_append)
    next
      case False
      with Suc that pr(2) have "i' = length fevs" by simp
      with Suc pr(2) show ?thesis by (simp add: nth_append)
    qed
  qed
  have e0: "evs ! 0 = CreateBranch r b m True"
    using pr(2) by simp
  have c2: "\<forall>i < length evs. is_create_file (evs ! i) \<longrightarrow> 0 < i \<and> branch_created (evs ! 0)"
    using pos e0 by fastforce
  have c3: "\<forall>i < length evs. is_create_pr (evs ! i) \<longrightarrow>
          branch_created (evs ! 0) \<and> (\<exists>j. 0 < j \<and> j < i \<and> is_file_created (evs ! j))"
  proof (intro allI impI)
    fix i assume i: "i < length evs" "is_create_pr (evs ! i)"
    from pos [OF i(1)] i(2) e0 f a have "i = Suc (length fevs)"
      by auto
    with ex e0 show "branch_created (evs ! 0) \<and> (\<exists>j. 0 < j \<and> j < i \<and> is_file_created (evs ! j))"
      by simp
  qed
  have c4: "\<forall>i < length evs. branch_failed (evs ! i) \<longrightarrow> evs = [evs ! i]"
  proof (intro allI impI)
    fix i assume i: "i < length evs" "branch_failed (evs ! i)"
    from pos [OF i(1)] i(2) e0 f a have False
      by auto
    then show "evs = [evs ! i]" ..
  qed
  from pr(1) c2 c3 c4 show ?thesis by simp
qed

theorem pr_sequence_gated_witness:
  "is_create_pr (fst (snd gated_run) ! 2) \<and> branch_created (fst (snd gated_run) ! 0)
   \<and> (\<exists>j. 0 < j \<and> j < 2 \<and> is_file_created (fst (snd gated_run) ! j))"
proof -
  obtain res evs w' where run: "create_pull_request_for_issue
      (scripted_client True True (Some pr_7) True True) ''test/repo'' issue_123 yaml_go_analysis 0
      = (res, evs, w')"
    by (rule prod_cases3)
  then have evs: "evs = fst (snd gated_run)"
    by (simp add: gated_run_def)
  have len: "2 < length evs" and pr: "is_create_pr (evs ! 2)"
    by (simp_all add: evs gated_run_events)
  from pr_sequence_gated [OF run]
  have "\<forall>i < length evs. is_create_pr (evs ! i) \<longrightarrow>
            branch_created (evs ! 0) \<and> (\<exists>j. 0 < j \<and> j < i \<and> is_file_created (evs ! j))"
    by simp
  with len pr have "branch_created (evs ! 0) \<and> (\<exists>j. 0 < j \<and> j < 2 \<and> is_file_created (evs ! j))"
    by blast
  with pr show ?thesis by (simp add: evs)
qed

section \<open>Files created for the code blocks\<close>

lemma supported_spec_extension:
  "tag \<in> set supported_languages \<longleftrightarrow> spec_extension tag \<noteq> None"
  by (simp add: supported_languages_def spec_extension_def)

lemma ext_of_spec_extension: "spec_extension tag = Some ext \<Longrightarrow> ext_of tag = ext"
  by (auto simp: spec_extension_def ext_of_def ext_map_def split: if_splits)

lemma file_paths_spec:
  "map (\<lambda>(i, b). make_file_path i (language b))
     (filter (\<lambda>(i, b). language b \<in> set supported_languages) ibs)
   = concat (map spec_paths ibs)"
proof (induction ibs)
  case Nil
  then show ?case by simp
next
  case (Cons ib ibs)
  obtain i b where ib: "ib = (i, b)" by (cases ib)
  show ?case
  proof (cases "spec_extension (language b)")
    case None
    with Cons ib show ?thesis
      by (simp add: supported_spec_extension spec_paths_def)
  next
    case (Some ext)
    with Cons ib ext_of_spec_extension [OF Some] show ?thesis
      by (simp add: supported_spec_extension spec_paths_def make_file_path_def)
  qed
qed

lemma filter_create_file_id: "list_all is_create_file fevs \<Longrightarrow> filter is_create_file fevs = fevs"
  by (simp add: list_all_iff)

text \<open>
  C7. Once the branch is created, the file-creation calls of the sequence are, in order,
  exactly one call for each extracted code block whose tag is one of python, js,
  javascript, typescript, java, cpp, c, go, rust, with the path
  \<open>ai_task_implementations/ai_task_implementation_<1-based index><extension>\<close> and the
  extension of the map; a block with any other tag gives no call.
\<close>

theorem file_call_per_supported_block:
  assumes run: "create_pull_request_for_issue cl repository task analysis_result w = (res, evs, w')"
    and branch: "list_ex branch_created evs"
  shows "map created_path (filter is_create_file evs)
     = concat (map spec_paths (enumerate 0 (extract_code_blocks analysis_result)))"
  using run
proof (cases rule: cprfi_cases)
  case none
  with branch show ?thesis by simp
next
  case nobranch
  with branch show ?thesis by simp
next
  case (nofiles w1 fevs w2)
  from create_files_events [OF nofiles(2)] nofiles(3) show ?thesis
    by (simp add: filter_create_file_id file_paths_spec)
next
  case (prfailed w1 n fevs w2 pr)
  from create_files_events [OF prfailed(2)] prfailed(4) show ?thesis
    by (simp add: filter_create_file_id file_paths_spec)
next
  case (prcreated w1 n fevs w2 kv kvs)
  from create_files_events [OF prcreated(2)] prcreated(4) show ?thesis
    by (simp add: filter_create_file_id file_paths_spec)
qed

theorem file_call_per_supported_block_witness:
  "map created_path (filter is_create_file (fst (snd gated_run)))
     = [''ai_task_implementations/ai_task_implementation_2.go'']"
proof -
  obtain res evs w' where run: "create_pull_request_for_issue
      (scripted_client True True (Some pr_7) True True) ''test/repo'' issue_123 yaml_go_analysis 0
      = (res, evs, w')"
    by (rule prod_cases3)
  then have evs: "evs = fst (snd gated_run)"
    by (simp add: gated_run_def)
  have branch: "list_ex branch_created evs"
    by (simp add: evs gated_run_events)
  have paths: "concat (map spec_paths (enumerate 0 (extract_code_blocks yaml_go_analysis)))
      = [''ai_task_implementations/ai_task_implementation_2.go'']"
    by code_simp
  from file_call_per_supported_block [OF run branch] show ?thesis
    by (simp only: evs paths)
qed

section \<open>The body of the pull request\<close>

lemma pr_body_python_fence:
  "contains (fence @ ''python'' @ newline @ code b @ newline @ fence) (make_pr_body task (b # bs))"
proof -
  have "\<exists>p q. make_pr_body task (b # bs)
      = p @ (fence @ ''python'' @ newline @ code b @ newline @ fence) @ q"
    unfolding make_pr_body_def list.case
    by (rule exI [of _ "''## AI Agent Implementation'' @ newline @ newline
     @ ''This pull request implements the requirements from Issue #'' @ str_int (number task)
     @ '': '' @ title task @ newline @ newline
     @ ''### Changes Made:'' @ newline
     @ body task @ newline @ newline
     @ ''### Implementation:'' @ newline
     @ ''The AI agent has analyzed the requirements and provided the following implementation:''
     @ newline @ newline"], rule exI, simp only: append_assoc)
  then show ?thesis
    using contains_append by metis
qed

text \<open>
  C10. Every pull-request call of the sequence carries the synthesized body, which embeds
  the code of the first extracted block between a fence tagged \<open>python\<close> and a closing
  fence, whatever the language of that block: changing the block's language leaves the
  body unchanged.
\<close>

theorem pr_body_presents_first_block_as_python:
  assumes run: "create_pull_request_for_issue cl repository task analysis_result w = (res, evs, w')"
    and blocks: "extract_code_blocks analysis_result = b # bs"
    and call: "CreatePullRequest r t bd h m pr \<in> set evs"
  shows "bd = make_pr_body task (b # bs)
    \<and> contains (fence @ ''python'' @ newline @ code b @ newline @ fence) bd
    \<and> make_pr_body task (b\<lparr>language := l\<rparr> # bs) = bd"
proof -
  have indep: "make_pr_body task (b\<lparr>language := l\<rparr> # bs) = make_pr_body task (b # bs)"
    by (simp add: make_pr_body_def)
  have nocall: "CreatePullRequest r t bd h m pr \<notin> set fevs" if "list_all is_create_file fevs" for fevs
    using that by (auto simp: list_all_iff)
  from run have "bd = make_pr_body task (b # bs)"
  proof (cases rule: cprfi_cases)
    case none
    with call show ?thesis by simp
  next
    case nobranch
    with call show ?thesis by simp
  next
    case (nofiles w1 fevs w2)
    from create_files_events [OF nofiles(2)] nocall call nofiles(3) show ?thesis
      by simp
  next
    case (prfailed w1 n fevs w2 pr)
    from create_files_events [OF prfailed(2)] nocall call prfailed(4) blocks show ?thesis
      by auto
  next
    case (prcreated w1 n fevs w2 kv kvs)
    from create_files_events [OF prcreated(2)] nocall call prcreated(4) blocks show ?thesis
      by auto
  qed
  with indep pr_body_python_fence [of b task bs] show ?thesis by simp
qed

theorem pr_body_presents_first_block_as_python_witness:
  "language (hd (extract_code_blocks yaml_go_analysis)) = ''yaml''
   \<and> contains (fence @ ''python'' @ newline @ ''a: 1'' @ newline @ fence)
        (make_pr_body issue_123 (extract_code_blocks yaml_go_analysis))"
proof -
  obtain res evs w' where run: "create_pull_request_for_issue
      (scripted_client True True (Some pr_7) True True) ''test/repo'' issue_123 yaml_go_analysis 0
      = (res, evs, w')"
    by (rule prod_cases3)
  then have evs: "evs = fst (snd gated_run)"
    by (simp add: gated_run_def)
  have blocks: "extract_code_blocks yaml_go_analysis
      = \<lparr>language = ''yaml'', code = ''a: 1''\<rparr> # [\<lparr>language = ''go'', code = ''package main''\<rparr>]"
    by code_simp
  have call: "CreatePullRequest ''test/repo'' (make_pr_title issue_123)
       (make_pr_body issue_123 (extract_code_blocks yaml_go_analysis))
       ''ai-task-123-implement-sentiment-analysis-a'' ''main'' (Some pr_7) \<in> set evs"
    by (simp add: evs gated_run_events)
  from pr_body_presents_first_block_as_python [OF run blocks call, THEN conjunct2, THEN conjunct1]
  have "contains (fence @ ''python'' @ newline @ code \<lparr>language = ''yaml'', code = ''a: 1''\<rparr> @ newline @ fence)
      (make_pr_body issue_123 (extract_code_blocks yaml_go_analysis))"
    by simp
  then show ?thesis
    by (simp add: blocks)
qed

section \<open>Processing one issue\<close>

lemma created_pr_create_file: "is_create_file e \<Longrightarrow> created_pr e = None"
  by (cases e) simp_all

lemma cprfi_calls:
  assumes "create_pull_request_for_issue cl repository task analysis_result w = (res, evs, w')"
  shows "\<not> list_ex is_add_comment evs" and "\<not> list_ex is_close_issue evs"
proof -
  have a: "\<not> is_add_comment e \<and> \<not> is_close_issue e" if "is_create_file e" for e
    using that by (cases e) simp_all
  then have b: "\<not> list_ex is_add_comment fevs \<and> \<not> list_ex is_close_issue fevs"
    if "list_all is_create_file fevs" for fevs
    using that by (auto simp: list_all_iff list_ex_iff)
  from assms have "\<not> list_ex is_add_comment evs \<and> \<not> list_ex is_close_issue evs"
  proof (cases rule: cprfi_shape)
    case none
    then show ?thesis by simp
  next
    case nobranch
    then show ?thesis by simp
  next
    case (nofiles r b m fevs)
    with b show ?thesis by simp
  next
    case (pr r b m fevs r' t bd h m' pr)
    with b show ?thesis by simp
  qed
  then show "\<not> list_ex is_add_comment evs" and "\<not> list_ex is_close_issue evs"
    by simp_all
qed

lemma cprfi_follow_up:
  assumes run: "create_pull_request_for_issue cl repository task analysis_result w = (res, evs, w')"
  shows "case pr_outcome evs of
           Some pr \<Rightarrow> res = pr_created_message pr
         | None \<Rightarrow> follow_up_comment res = pr_problem_comment res"
  using run
proof (cases rule: cprfi_cases)
  case none
  then show ?thesis by (simp add: pr_outcome_def follow_up_no_implementation)
next
  case nobranch
  then show ?thesis by (simp add: pr_outcome_def follow_up_branch_failed)
next
  case (nofiles w1 fevs w2)
  have "created_pr (last (CreateBranch repository (make_branch_name task) ''main'' True # fevs)) = None"
  proof (cases "fevs = []")
    case True
    then show ?thesis by simp
  next
    case False
    from create_files_created(1) [OF nofiles(2)] False have "is_create_file (last fevs)"
      by (simp add: list_all_iff)
    with False show ?thesis by (simp add: created_pr_create_file)
  qed
  with nofiles show ?thesis by (simp add: pr_outcome_def follow_up_no_files)
next
  case (prfailed w1 n fevs w2 pr)
  from prfailed(5) have "created_pr (CreatePullRequest repository (make_pr_title task)
      (make_pr_body task (extract_code_blocks analysis_result)) (make_branch_name task) ''main'' pr) = None"
    by auto
  with prfailed show ?thesis by (simp add: pr_outcome_def follow_up_pr_failed)
next
  case (prcreated w1 n fevs w2 kv kvs)
  then show ?thesis by (simp add: pr_outcome_def)
qed

lemma process_issue_code_change:
  assumes code: "requires_code_changes task"
    and run: "process_issue cl repository analysis_result task w = (lines, evs, w')"
  obtains pr_result pevs w1 ok where
    "create_pull_request_for_issue cl repository task analysis_result w = (pr_result, pevs, w1)"
    "lines = [processing_line task, pr_result_line pr_result, added_comment_line task]"
    "evs = pevs @ [AddIssueComment repository (number task) (follow_up_comment pr_result) ok]"
proof -
  obtain pr_result pevs w1 where c:
    "create_pull_request_for_issue cl repository task analysis_result w = (pr_result, pevs, w1)"
    by (rule prod_cases3)
  obtain ok w2 where a:
    "add_issue_comment cl repository (number task) (follow_up_comment pr_result) w1 = (ok, w2)"
    by (cases "add_issue_comment cl repository (number task) (follow_up_comment pr_result) w1")
  from run code c a have
    "lines = [processing_line task, pr_result_line pr_result, added_comment_line task]"
    "evs = pevs @ [AddIssueComment repository (number task) (follow_up_comment pr_result) ok]"
    by (simp_all add: process_issue_def Let_def)
  with c show ?thesis by (rule that)
qed

text \<open>
  C6. For an issue that requires code changes, the calls made for it are those of the
  pull request attempt, none of which is an add-comment call, followed by exactly one
  add-comment call on that issue. When the attempt ended with a created pull request,
  the comment is the link comment with the pull request's URL (a URL holds no colon
  followed by a space); otherwise the comment reports the attempt's failure message.
\<close>

theorem one_follow_up_comment:
  assumes code: "requires_code_changes task"
    and run: "process_issue cl repository analysis_result task w = (lines, evs, w')"
  shows "\<exists>pr_result pevs w1 comment ok.
      create_pull_request_for_issue cl repository task analysis_result w = (pr_result, pevs, w1)
    \<and> evs = pevs @ [AddIssueComment repository (number task) comment ok]
    \<and> \<not> list_ex is_add_comment pevs
    \<and> length (filter is_add_comment evs) = 1
    \<and> (case pr_outcome pevs of
          Some pr \<Rightarrow>
            \<not> contains '': '' (pr_field pr ''html_url'') \<longrightarrow>
            comment = robot @ '' AI Agent has created a pull request to address this issue: ''
              @ pr_field pr ''html_url'' @ newline @ newline @ ''Please review the implementation.''
        | None \<Rightarrow>
            comment = robot @ '' AI Agent attempted to create a pull request but encountered an issue: ''
              @ pr_result)"
  using code run
proof (cases rule: process_issue_code_change)
  case (1 pr_result pevs w1 ok)
  from cprfi_calls(1) [OF 1(1)] have nc: "\<not> list_ex is_add_comment pevs" .
  then have "filter is_add_comment pevs = []"
    by (simp add: list_ex_iff filter_empty_conv)
  with 1(3) have one: "length (filter is_add_comment evs) = 1"
    by simp
  have "case pr_outcome pevs of
          Some pr \<Rightarrow>
            \<not> contains '': '' (pr_field pr ''html_url'') \<longrightarrow>
            follow_up_comment pr_result = robot @ '' AI Agent has created a pull request to address this issue: ''
              @ pr_field pr ''html_url'' @ newline @ newline @ ''Please review the implementation.''
        | None \<Rightarrow>
            follow_up_comment pr_result = robot @ '' AI Agent attempted to create a pull request but encountered an issue: ''
              @ pr_result"
  proof (cases "pr_outcome pevs")
    case None
    with cprfi_follow_up [OF 1(1)] show ?thesis
      by (simp add: pr_problem_comment_def)
  next
    case (Some pr)
    with cprfi_follow_up [OF 1(1)] have "pr_result = pr_created_message pr"
      by simp
    with Some follow_up_created [of pr] show ?thesis
      by (simp add: pr_link_comment_def)
  qed
  with 1(1,3) nc one show ?thesis by blast
qed

theorem one_follow_up_comment_witness:
  "\<exists>ok. last (fst (snd commented_run)) =
     AddIssueComment ''test/repo'' 123
       (robot @ '' AI Agent has created a pull request to address this issue: ''
          @ ''https://github.com/test/repo/pull/7'' @ newline @ newline
          @ ''Please review the implementation.'') ok"
proof -
  have code: "requires_code_changes issue_123"
    by code_simp
  obtain lines evs w' where run: "process_issue (scripted_client True True (Some pr_7) True True)
     ''test/repo'' yaml_go_analysis issue_123 0 = (lines, evs, w')"
    by (rule prod_cases3)
  then have evs: "fst (snd commented_run) = evs"
    by (simp add: commented_run_def)
  have n: "number issue_123 = 123"
    by (simp add: issue_123_def)
  have url: "pr_field pr_7 ''html_url'' = ''https://github.com/test/repo/pull/7''"
    by code_simp
  have nosep: "\<not> contains '': '' ''https://github.com/test/repo/pull/7''"
    by code_simp
  from one_follow_up_comment [OF code run] obtain pr_result pevs w1 comment ok where
    c: "create_pull_request_for_issue (scripted_client True True (Some pr_7) True True)
          ''test/repo'' issue_123 yaml_go_analysis 0 = (pr_result, pevs, w1)"
    and e: "evs = pevs @ [AddIssueComment ''test/repo'' (number issue_123) comment ok]"
    and o: "case pr_outcome pevs of
          Some pr \<Rightarrow>
            \<not> contains '': '' (pr_field pr ''html_url'') \<longrightarrow>
            comment = robot @ '' AI Agent has created a pull request to address this issue: ''
              @ pr_field pr ''html_url'' @ newline @ newline @ ''Please review the implementation.''
        | None \<Rightarrow>
            comment = robot @ '' AI Agent attempted to create a pull request but encountered an issue: ''
              @ pr_result"
    by blast
  from c have "pevs = fst (snd gated_run)"
    by (simp add: gated_run_def)
  then have "pr_outcome pevs = Some pr_7"
    by (simp add: gated_run_events pr_outcome_def pr_7_def)
  with o url nosep have "comment = robot @ '' AI Agent has created a pull request to address this issue: ''
              @ ''https://github.com/test/repo/pull/7'' @ newline @ newline
              @ ''Please review the implementation.''"
    by simp
  with e n show ?thesis
    unfolding evs by simp
qed

section \<open>The action chosen for an issue\<close>





section \<open>The action log\<close>

text \<open>
  C8 does not hold of the code: the results of \<open>close_issue\<close> and \<open>add_issue_comment\<close>
  are not read, so a close call and two comment calls that returned failure are logged
  with the success marker; and the line of a pull request attempt that failed carries the
  success marker in front of the failure marker.
\<close>

theorem failed_calls_logged_as_success:
  "take_action_on_issues (scripted_client False True None False False)
     ''test/repo'' [issue_123, issue_124, issue_126] yaml_go_analysis 0
   = (join_lines
        [replicate 50 (CHR ''=''), ''ACTIONS TAKEN ON ISSUES'', replicate 50 (CHR ''=''),
         newline @ ''Processing Issue #123: Implement Sentiment analysis API (v2)!'',
         check_mark @ '' '' @ cross_mark
           @ '' Failed to create branch ai-task-123-implement-sentiment-analysis-a for issue #123'',
         check_mark @ '' Added comment to issue #123'',
         newline @ ''Processing Issue #124: Invalid test issue'',
         check_mark @ '' Closed invalid issue #124'',
         newline @ ''Processing Issue #126: Question'',
         check_mark @ '' Added analysis comment to issue #126''],
      [CreateBranch ''test/repo'' ''ai-task-123-implement-sentiment-analysis-a'' ''main'' False,
       AddIssueComment ''test/repo'' 123
         (pr_problem_comment (branch_failed_message issue_123 (make_branch_name issue_123))) False,
       CloseIssue ''test/repo'' 124 (Some invalid_comment) False,
       AddIssueComment ''test/repo'' 126 (analysis_comment yaml_go_analysis) False],
      4)"
  by code_simp

section \<open>Closing an issue at the gateway\<close>

text \<open>
  C9. When a non-empty comment is supplied and the close request is answered with status
  200, the comment is posted by a second request and the operation returns success
  whatever the reply to that second request; when the close request raises or is answered
  with another status, the operation returns failure and the close request is the only
  request made; without a usable session the operation returns failure and makes no
  request.
\<close>

theorem close_issue_comment_not_rolled_back:
  assumes patch: "send srv PATCH (issue_url owner repo n) [(''state'', ''closed'')] w = (reply, w1)"
    and post: "send srv POST (comments_url owner repo n) [(''body'', c # cs)] w1 = (reply2, w2)"
  shows "(session_usable srv \<and> reply = Status 200 \<longrightarrow>
            server_close_issue srv owner repo n (Some (c # cs)) w
              = (True, [HttpCall PATCH (issue_url owner repo n) [(''state'', ''closed'')] reply,
                        HttpCall POST (comments_url owner repo n) [(''body'', c # cs)] reply2], w2))
    \<and> (session_usable srv \<and> reply \<noteq> Status 200 \<longrightarrow>
            server_close_issue srv owner repo n comment w
              = (False, [HttpCall PATCH (issue_url owner repo n) [(''state'', ''closed'')] reply], w1))
    \<and> (\<not> session_usable srv \<longrightarrow> server_close_issue srv owner repo n comment w = (False, [], w))"
  using patch post
  by (simp add: server_close_issue_def server_add_issue_comment_def Let_def)

theorem close_issue_comment_not_rolled_back_witness:
  "server_close_issue flaky_server ''test'' ''repo'' 124 (Some ''Closing.'') 0
     = (True, [HttpCall PATCH (issue_url ''test'' ''repo'' 124) [(''state'', ''closed'')] (Status 200),
               HttpCall POST (comments_url ''test'' ''repo'' 124) [(''body'', ''Closing.'')] (Status 500)], 2)"
proof -
  have u: "session_usable flaky_server"
    by (simp add: flaky_server_def)
  have p: "send flaky_server PATCH (issue_url ''test'' ''repo'' 124) [(''state'', ''closed'')] 0
      = (Status 200, 1)"
    by (simp add: flaky_server_def)
  have q: "send flaky_server POST (comments_url ''test'' ''repo'' 124) [(''body'', ''Closing.'')] 1
      = (Status 500, 2)"
    by (simp add: flaky_server_def)
  from close_issue_comment_not_rolled_back [OF p, of "CHR ''C''" "''losing.''" "Status 500" 2]
    u q show ?thesis
    by simp
qed

section \<open>Soft failure of the client\<close>

lemma operation_soft_failure:
  assumes "\<And>payload. soft_failure (post payload)"
  shows "try_except (and_then (owner_repo repository) (\<lambda>(owner, repo).
           call post (payload_of owner repo) fallback on_ok)) fallback = Inr fallback"
proof (cases "owner_repo repository")
  case (Inl e)
  then show ?thesis by (simp add: try_except_def and_then_def)
next
  case (Inr p)
  obtain owner repo where p: "p = (owner, repo)" by (cases p)
  from assms [of "payload_of owner repo"]
  have "call post (payload_of owner repo) fallback on_ok = Inl ClientError
      \<or> call post (payload_of owner repo) fallback on_ok = Inr fallback"
    by (cases "post (payload_of owner repo)") (auto simp: call_def)
  with Inr p show ?thesis
    by (auto simp: try_except_def and_then_def)
qed

text \<open>
  C5. When the POST of an operation ends in a transport exception or in a response with
  a status outside 200..299, every operation of the client returns its default and
  raises nothing: the empty list for the two list operations, \<open>None\<close> for the issue
  details and for the pull request, \<open>False\<close> for closing, commenting, creating a branch
  and creating a file.
\<close>

theorem client_soft_failure:
  assumes "\<And>payload. soft_failure (post payload)"
  shows "client_get_issues_by_label validate post repository label = Inr []
    \<and> client_get_all_open_issues validate post repository = Inr []
    \<and> client_get_issue_details validate post repository issue_number = Inr None
    \<and> client_close_issue post repository issue_number comment = Inr (JBool False)
    \<and> client_add_issue_comment post repository issue_number text = Inr (JBool False)
    \<and> client_create_pull_request post repository pr_title pr_body head base = Inr JNull
    \<and> client_create_branch post repository branch_name base_branch = Inr (JBool False)
    \<and> client_create_file post repository path content branch message = Inr (JBool False)"
  unfolding client_get_issues_by_label_def client_get_all_open_issues_def
    client_get_issue_details_def client_close_issue_def client_add_issue_comment_def
    client_create_pull_request_def client_create_branch_def client_create_file_def
  by (intro conjI operation_soft_failure assms)

theorem client_soft_failure_witness:
  "client_get_issues_by_label (\<lambda>d. None) server_error ''test/repo'' ''ai-task'' = Inr []
   \<and> client_get_issue_details (\<lambda>d. None) connection_refused ''test/repo'' 124 = Inr None
   \<and> client_close_issue server_error ''test/repo'' 124 (Some ''Closing.'') = Inr (JBool False)
   \<and> client_create_pull_request connection_refused ''test/repo'' ''t'' ''b'' ''h'' ''main'' = Inr JNull"
proof -
  have s: "soft_failure (server_error payload)" for payload
    by (simp add: server_error_def)
  have c: "soft_failure (connection_refused payload)" for payload
    by (simp add: connection_refused_def)
  from client_soft_failure [where post = server_error and validate = "\<lambda>d. None"
      and repository = "''test/repo''" and label = "''ai-task''" and issue_number = 124
      and comment = "Some ''Closing.''", OF s]
  have a: "client_get_issues_by_label (\<lambda>d. None) server_error ''test/repo'' ''ai-task'' = Inr []"
    and b: "client_close_issue server_error ''test/repo'' 124 (Some ''Closing.'') = Inr (JBool False)"
    by simp_all
  from client_soft_failure [where post = connection_refused and validate = "\<lambda>d. None"
      and repository = "''test/repo''" and issue_number = 124 and pr_title = "''t''"
      and pr_body = "''b''" and head = "''h''" and base = "''main''", OF c]
  have d: "client_get_issue_details (\<lambda>d. None) connection_refused ''test/repo'' 124 = Inr None"
    and e: "client_create_pull_request connection_refused ''test/repo'' ''t'' ''b'' ''h'' ''main'' = Inr JNull"
    by simp_all
  from a b d e show ?thesis by simp
qed

end
